theory Spec2Isabelle
  imports Complex_Main "HOL-Library.Stream"
begin

section \<open>Numbers, vectors and the random source\<close>

text \<open>
  The renderer computes in C++ \<^verbatim>\<open>double\<close>. Finite doubles are modelled by \<^typ>\<open>real\<close>
  (no rounding, no overflow). Where the code can produce or store an IEEE special value
  (the bound \<^verbatim>\<open>infinity\<close> of an interval, the quotient \<^verbatim>\<open>1.0 / 0\<close>), the value is a
  \<open>ieee_double\<close>, which adds the infinities and NaN to the reals.
\<close>

datatype ieee_double = Finite real | PosInf | NegInf | NaN

text \<open>IEEE division of two finite values: a zero divisor gives an infinity or NaN.\<close>

definition double_div :: "real \<Rightarrow> real \<Rightarrow> ieee_double" where
  "double_div a b =
     (if b = 0 then (if a > 0 then PosInf else if a < 0 then NegInf else NaN)
      else Finite (a / b))"

fun double_mul :: "ieee_double \<Rightarrow> ieee_double \<Rightarrow> ieee_double" where
  "double_mul (Finite a) (Finite b) = Finite (a * b)"
| "double_mul NaN _ = NaN"
| "double_mul _ NaN = NaN"
| "double_mul (Finite a) PosInf = (if a > 0 then PosInf else if a < 0 then NegInf else NaN)"
| "double_mul (Finite a) NegInf = (if a > 0 then NegInf else if a < 0 then PosInf else NaN)"
| "double_mul PosInf (Finite b) = (if b > 0 then PosInf else if b < 0 then NegInf else NaN)"
| "double_mul NegInf (Finite b) = (if b > 0 then NegInf else if b < 0 then PosInf else NaN)"
| "double_mul PosInf PosInf = PosInf"
| "double_mul NegInf NegInf = PosInf"
| "double_mul PosInf NegInf = NegInf"
| "double_mul NegInf PosInf = NegInf"

fun double_add :: "ieee_double \<Rightarrow> ieee_double \<Rightarrow> ieee_double" where
  "double_add (Finite a) (Finite b) = Finite (a + b)"
| "double_add NaN _ = NaN"
| "double_add _ NaN = NaN"
| "double_add PosInf NegInf = NaN"
| "double_add NegInf PosInf = NaN"
| "double_add PosInf _ = PosInf"
| "double_add _ PosInf = PosInf"
| "double_add NegInf _ = NegInf"
| "double_add _ NegInf = NegInf"


text \<open>IEEE comparison: every comparison with NaN is false.\<close>

fun double_less :: "ieee_double \<Rightarrow> ieee_double \<Rightarrow> bool" where
  "double_less (Finite a) (Finite b) = (a < b)"
| "double_less NaN _ = False"
| "double_less _ NaN = False"
| "double_less _ NegInf = False"
| "double_less NegInf _ = True"
| "double_less PosInf _ = False"
| "double_less _ PosInf = True"

text \<open>The constant \<^verbatim>\<open>infinity\<close> of \<^verbatim>\<open>rtweekend.h\<close>.\<close>

definition infinity :: ieee_double where
  "infinity = PosInf"

text \<open>
  Modelled from the spec: \<^verbatim>\<open>vec3.h\<close> is not among the sources. \<^verbatim>\<open>vec3\<close>, \<^verbatim>\<open>point3\<close> and
  \<^verbatim>\<open>color\<close> are one class of three doubles with componentwise arithmetic
  (``vector/point/color arithmetic primitives'').
\<close>

datatype vec3 = Vec3 (vx: real) (vy: real) (vz: real)

type_synonym point3 = vec3
type_synonym color = vec3

definition vec_add :: "vec3 \<Rightarrow> vec3 \<Rightarrow> vec3" where
  "vec_add a b = Vec3 (vx a + vx b) (vy a + vy b) (vz a + vz b)"

definition vec_sub :: "vec3 \<Rightarrow> vec3 \<Rightarrow> vec3" where
  "vec_sub a b = Vec3 (vx a - vx b) (vy a - vy b) (vz a - vz b)"

definition vec_neg :: "vec3 \<Rightarrow> vec3" where
  "vec_neg a = Vec3 (- vx a) (- vy a) (- vz a)"

definition vec_mul :: "vec3 \<Rightarrow> vec3 \<Rightarrow> vec3" where
  "vec_mul a b = Vec3 (vx a * vx b) (vy a * vy b) (vz a * vz b)"

definition vec_scale :: "real \<Rightarrow> vec3 \<Rightarrow> vec3" where
  "vec_scale k a = Vec3 (k * vx a) (k * vy a) (k * vz a)"

definition vec_div :: "vec3 \<Rightarrow> real \<Rightarrow> vec3" where
  "vec_div a k = vec_scale (1 / k) a"

definition dot :: "vec3 \<Rightarrow> vec3 \<Rightarrow> real" where
  "dot a b = vx a * vx b + vy a * vy b + vz a * vz b"

definition cross :: "vec3 \<Rightarrow> vec3 \<Rightarrow> vec3" where
  "cross a b = Vec3 (vy a * vz b - vz a * vy b)
                    (vz a * vx b - vx a * vz b)
                    (vx a * vy b - vy a * vx b)"

definition length_squared :: "vec3 \<Rightarrow> real" where
  "length_squared a = vx a * vx a + vy a * vy a + vz a * vz a"

definition vec_length :: "vec3 \<Rightarrow> real" where
  "vec_length a = sqrt (length_squared a)"

definition unit_vector :: "vec3 \<Rightarrow> vec3" where
  "unit_vector a = vec_div a (vec_length a)"

text \<open>
  The random source is the sequence of the draws it will return; \<^verbatim>\<open>random_double()\<close>
  takes the next one. Every function of the program that draws takes the source and
  returns what is left of it. The program's contract is that each draw lies in \<open>[0,1)\<close>.
\<close>

type_synonym rng = "real stream"

definition random_double :: "rng \<Rightarrow> real \<times> rng" where
  "random_double g = (shd g, stl g)"

text \<open>
  Modelled from the spec: \<^verbatim>\<open>random_int\<close> is declared in \<^verbatim>\<open>rtweekend.h\<close>, which is not
  among the sources. It draws an integer of \<open>[lo, hi]\<close> uniformly from one draw of the
  uniform \<open>[0,1)\<close> source.
\<close>

definition random_int :: "int \<Rightarrow> int \<Rightarrow> rng \<Rightarrow> int \<times> rng" where
  "random_int lo hi g =
     (let (xi, g') = random_double g
      in (lo + \<lfloor>real_of_int (hi + 1 - lo) * xi\<rfloor>, g'))"

record ray =
  origin :: point3
  direction :: vec3
  time :: real

section \<open>Probability densities (pdf.h)\<close>

text \<open>
  The abstract class \<^verbatim>\<open>pdf\<close>: an object with the two virtual methods \<^verbatim>\<open>value\<close> and
  \<^verbatim>\<open>generate\<close>, here \<open>pdf_value\<close> and \<open>pdf_generate\<close> (the methods \<^verbatim>\<open>pdf_value\<close> and
  \<^verbatim>\<open>random\<close> of a \<^verbatim>\<open>hittable\<close> are \<open>hittable_pdf_value\<close> and \<open>hittable_random\<close>).
  \<^verbatim>\<open>generate\<close> draws from the random source.
\<close>

record pdf =
  pdf_value :: "vec3 \<Rightarrow> real"
  pdf_generate :: "rng \<Rightarrow> vec3 \<times> rng"

definition mixture_pdf :: "pdf \<Rightarrow> pdf \<Rightarrow> pdf" where
  "mixture_pdf p0 p1 =
     \<lparr> pdf_value = (\<lambda>direction. 0.5 * pdf_value p0 direction + 0.5 * pdf_value p1 direction),
       pdf_generate = (\<lambda>g. let (xi, g') = random_double g
                           in if xi < 0.5 then pdf_generate p0 g' else pdf_generate p1 g') \<rparr>"

text \<open>
  Modelled from the spec: \<^verbatim>\<open>onb.h\<close> is not among the sources. An orthonormal basis is
  its three axes, and \<open>transform\<close> takes local coordinates to the combination of the axes
  (``the local frame defined by that normal''). \<^verbatim>\<open>interval::clamp\<close> is likewise absent: it
  brings a value into \<open>[lo, hi]\<close> (``clamped exponent'').
\<close>

record onb =
  axis_u :: vec3
  axis_v :: vec3
  axis_w :: vec3

definition onb_transform :: "onb \<Rightarrow> vec3 \<Rightarrow> vec3" where
  "onb_transform uvw v =
     vec_add (vec_add (vec_scale (vx v) (axis_u uvw)) (vec_scale (vy v) (axis_v uvw)))
             (vec_scale (vz v) (axis_w uvw))"

definition clamp :: "real \<Rightarrow> real \<Rightarrow> real \<Rightarrow> real" where
  "clamp lo hi x = (if x < lo then lo else if x > hi then hi else x)"

text \<open>
  \<^verbatim>\<open>phong_pdf\<close>: the frame \<^verbatim>\<open>uvw\<close> around the lobe axis (built by the absent \<^verbatim>\<open>onb\<close>
  constructor, so given here), the clamped exponent and the reference normal.
\<close>

record phong_pdf =
  phong_uvw :: onb
  phong_alpha :: real
  phong_n :: vec3

definition new_phong_pdf :: "onb \<Rightarrow> real \<Rightarrow> vec3 \<Rightarrow> phong_pdf" where
  "new_phong_pdf uvw alpha n =
     \<lparr> phong_uvw = uvw, phong_alpha = clamp 0.1 1000 alpha, phong_n = n \<rparr>"

definition phong_value :: "phong_pdf \<Rightarrow> vec3 \<Rightarrow> real" where
  "phong_value p dir =
     (let cosine_theta = dot (unit_vector dir) (axis_w (phong_uvw p));
          cosine_theta = clamp 0 1 cosine_theta
      in (phong_alpha p + 1) * (cosine_theta powr phong_alpha p) / (2 * pi))"

text \<open>
  \<^verbatim>\<open>phong_pdf::generate\<close> is a \<^verbatim>\<open>while (true)\<close> loop that returns from inside: it
  need not terminate, and \<open>None\<close> is the run that never returns.
\<close>

partial_function (option) phong_generate :: "phong_pdf \<Rightarrow> rng \<Rightarrow> (vec3 \<times> rng) option" where
  "phong_generate p g =
     (let (r1, g1) = random_double g;
          phi = r1 * 2 * pi;
          (r2, g2) = random_double g1;
          xi = max (1 / 10 ^ 10) r2;
          cos_theta = xi powr (1 / (phong_alpha p + 1));
          sin_theta = sqrt (max 0 (1 - cos_theta * cos_theta));
          dir = onb_transform (phong_uvw p)
                  (Vec3 (cos phi * sin_theta) (sin phi * sin_theta) cos_theta)
      in if dot dir (phong_n p) > 0 then Some (dir, g2) else phong_generate p g2)"

section \<open>Surfaces and materials (interval.h, hittable.h, material.h)\<close>

text \<open>
  Modelled from the spec: \<^verbatim>\<open>interval.h\<close>, \<^verbatim>\<open>hittable.h\<close> and \<^verbatim>\<open>material.h\<close> are not
  among the sources. An interval is its two bounds. A hit record is the intersection point,
  the surface normal, the parametric distance \<open>t\<close>, the surface parameters \<open>(u,v)\<close> and the
  front-face flag; its reference to the material at the hit is returned beside the record
  by \<open>hit\<close>, because the material's methods take the record as an argument. A scatter
  record is the attenuation and either a density to sample or the flag \<open>skip_pdf\<close> with
  an explicit continuation ray.
\<close>

record interval =
  imin :: ieee_double
  imax :: ieee_double

definition interval :: "ieee_double \<Rightarrow> ieee_double \<Rightarrow> interval" where
  "interval lo hi = \<lparr> imin = lo, imax = hi \<rparr>"

text \<open>\<^verbatim>\<open>interval::surrounds\<close>: the open interval contains \<open>x\<close>.\<close>

definition surrounds :: "interval \<Rightarrow> real \<Rightarrow> bool" where
  "surrounds ray_t x = (double_less (imin ray_t) (Finite x) \<and> double_less (Finite x) (imax ray_t))"

record hit_record =
  rec_p :: point3
  rec_normal :: vec3
  rec_t :: real
  rec_u :: real
  rec_v :: real
  front_face :: bool

record scatter_record =
  attenuation :: color
  pdf_ptr :: pdf
  skip_pdf :: bool
  skip_pdf_ray :: ray

text \<open>
  The abstract class \<^verbatim>\<open>material\<close>: \<open>scatter\<close> may decline (\<open>None\<close>, the code's
  \<^verbatim>\<open>false\<close>) and may draw from the random source.
\<close>

record material =
  emitted :: "ray \<Rightarrow> hit_record \<Rightarrow> real \<Rightarrow> real \<Rightarrow> point3 \<Rightarrow> color"
  scatter :: "ray \<Rightarrow> hit_record \<Rightarrow> rng \<Rightarrow> scatter_record option \<times> rng"
  scattering_pdf :: "ray \<Rightarrow> hit_record \<Rightarrow> ray \<Rightarrow> real"

text \<open>
  The abstract class \<^verbatim>\<open>hittable\<close>, with its virtual methods \<^verbatim>\<open>hit\<close>, \<^verbatim>\<open>pdf_value\<close> and
  \<^verbatim>\<open>random\<close>. \<open>hit\<close> may draw from the random source (\<^verbatim>\<open>constant_medium::hit\<close> does).
\<close>

record hittable =
  hit :: "ray \<Rightarrow> interval \<Rightarrow> rng \<Rightarrow> (hit_record \<times> material) option \<times> rng"
  hittable_pdf_value :: "point3 \<Rightarrow> vec3 \<Rightarrow> real"
  hittable_random :: "point3 \<Rightarrow> rng \<Rightarrow> vec3 \<times> rng"

definition hittable_pdf :: "hittable \<Rightarrow> point3 \<Rightarrow> pdf" where
  "hittable_pdf objects orig =
     \<lparr> pdf_value = (\<lambda>direction. hittable_pdf_value objects orig direction),
       pdf_generate = (\<lambda>g. hittable_random objects orig g) \<rparr>"

section \<open>Collections of objects (hittable_list.h)\<close>

text \<open>
  A \<^verbatim>\<open>hittable_list\<close> is its vector \<^verbatim>\<open>objects\<close>. (Its bounding box is of a class that
  is not among the sources and takes no part in sampling.) Indexing the vector out of its
  bounds is undefined behaviour in C++; the model returns the fault.
\<close>

datatype fault = IndexOutOfBounds

text \<open>
  The first statement of \<^verbatim>\<open>pdf_value\<close>: \<^verbatim>\<open>auto weight = 1.0 / objects.size()\<close>, in IEEE
  arithmetic. The loop then adds \<^verbatim>\<open>weight * object->pdf_value(origin, direction)\<close> for
  each member.
\<close>

definition pdf_value_weight :: "hittable list \<Rightarrow> ieee_double" where
  "pdf_value_weight objects = double_div 1 (real (length objects))"

definition hittable_list_pdf_value :: "hittable list \<Rightarrow> point3 \<Rightarrow> vec3 \<Rightarrow> ieee_double" where
  "hittable_list_pdf_value objects orig dir =
     (let weight = pdf_value_weight objects
      in fold (\<lambda>object sum.
                 double_add sum
                   (double_mul weight (Finite (hittable_pdf_value object orig dir))))
           objects (Finite 0))"

text \<open>
  \<^verbatim>\<open>random\<close>: the index is drawn first, then the member at that index samples. The
  conversion of \<^verbatim>\<open>objects.size()\<close> to \<^verbatim>\<open>int\<close> is exact for vectors of less than
  \<open>2^31\<close> members.
\<close>

definition hittable_list_random ::
  "hittable list \<Rightarrow> point3 \<Rightarrow> rng \<Rightarrow> fault + (vec3 \<times> rng)" where
  "hittable_list_random objects orig g =
     (let int_size = int (length objects);
          (k, g1) = random_int 0 (int_size - 1) g
      in if 0 \<le> k \<and> k < int_size then Inr (hittable_random (objects ! nat k) orig g1)
         else Inl IndexOutOfBounds)"

section \<open>The camera and its four integrators (camera.h)\<close>

datatype RenderMode = BSDF_SAMPLING | MIXTURE_SAMPLING | NEE | MIS

record camera =
  aspect_ratio :: real
  image_width :: int
  samples_per_pixel :: int
  max_depth :: int
  background :: color
  vfov :: real
  lookfrom :: point3
  lookat :: point3
  vup :: vec3
  defocus_angle :: real
  focus_dist :: real
  render_mode :: RenderMode
  image_height :: int
  pixel_samples_scale :: real
  sqrt_spp :: int
  recip_sqrt_spp :: real
  center :: point3
  pixel00_loc :: point3
  pixel_delta_u :: vec3
  pixel_delta_v :: vec3
  cam_u :: vec3
  cam_v :: vec3
  cam_w :: vec3
  defocus_disk_u :: vec3
  defocus_disk_v :: vec3

text \<open>bsdf sampling\<close>

function ray_color_1 ::
  "camera \<Rightarrow> ray \<Rightarrow> int \<Rightarrow> hittable \<Rightarrow> hittable \<Rightarrow> rng \<Rightarrow> color \<times> rng" where
  "ray_color_1 cam r depth world lights g =
     (if depth \<le> 0 then (Vec3 0 0 0, g)
      else case hit world r (interval (Finite 0.001) infinity) g of
        (None, g1) \<Rightarrow> (background cam, g1)
      | (Some (rec, mat), g1) \<Rightarrow>
          let color_from_emission = emitted mat r rec (rec_u rec) (rec_v rec) (rec_p rec)
          in (case scatter mat r rec g1 of
            (None, g2) \<Rightarrow> (color_from_emission, g2)
          | (Some srec, g2) \<Rightarrow>
              if skip_pdf srec then
                (let (c, g3) = ray_color_1 cam (skip_pdf_ray srec) (depth - 1) world lights g2
                 in (vec_mul (attenuation srec) c, g3))
              else
                let (dir, g3) = pdf_generate (pdf_ptr srec) g2
                in if length_squared dir < 0.0001 then (color_from_emission, g3)
                   else
                     let scattered = \<lparr> origin = rec_p rec, direction = dir, time = time r \<rparr>;
                         pdf_val = pdf_value (pdf_ptr srec) (direction scattered);
                         scattering = scattering_pdf mat r rec scattered;
                         (sample_color, g4) =
                            ray_color_1 cam scattered (depth - 1) world lights g3;
                         color_from_scatter =
                            vec_div (vec_mul (vec_scale scattering (attenuation srec))
                                             sample_color) pdf_val
                     in (vec_add color_from_emission color_from_scatter, g4)))"
  by pat_completeness auto
termination
  by (relation "measure (\<lambda>(cam, r, depth, world, lights, g). nat depth)") auto

text \<open>path tracing with mixture sampling\<close>

function ray_color_2 ::
  "camera \<Rightarrow> ray \<Rightarrow> int \<Rightarrow> hittable \<Rightarrow> hittable \<Rightarrow> rng \<Rightarrow> color \<times> rng" where
  "ray_color_2 cam r depth world lights g =
     (if depth \<le> 0 then (Vec3 0 0 0, g)
      else case hit world r (interval (Finite 0.001) infinity) g of
        (None, g1) \<Rightarrow> (background cam, g1)
      | (Some (rec, mat), g1) \<Rightarrow>
          let color_from_emission = emitted mat r rec (rec_u rec) (rec_v rec) (rec_p rec)
          in (case scatter mat r rec g1 of
            (None, g2) \<Rightarrow> (color_from_emission, g2)
          | (Some srec, g2) \<Rightarrow>
              if skip_pdf srec then
                (let (c, g3) = ray_color_2 cam (skip_pdf_ray srec) (depth - 1) world lights g2
                 in (vec_mul (attenuation srec) c, g3))
              else
                let light_ptr = hittable_pdf lights (rec_p rec);
                    p = mixture_pdf light_ptr (pdf_ptr srec);
                    (dir, g3) = pdf_generate p g2;
                    scattered = \<lparr> origin = rec_p rec, direction = dir, time = time r \<rparr>;
                    pdf_val = pdf_value p (direction scattered);
                    scattering = scattering_pdf mat r rec scattered;
                    (sample_color, g4) = ray_color_2 cam scattered (depth - 1) world lights g3;
                    color_from_scatter =
                       vec_div (vec_mul (vec_scale scattering (attenuation srec))
                                        sample_color) pdf_val
                in (vec_add color_from_emission color_from_scatter, g4)))"
  by pat_completeness auto
termination
  by (relation "measure (\<lambda>(cam, r, depth, world, lights, g). nat depth)") auto

text \<open>path tracing with NEE\<close>

function ray_color_3 ::
  "camera \<Rightarrow> ray \<Rightarrow> int \<Rightarrow> hittable \<Rightarrow> hittable \<Rightarrow> bool \<Rightarrow> rng \<Rightarrow> color \<times> rng" where
  "ray_color_3 cam r depth world lights includeLe g =
     (case hit world r (interval (Finite 0.001) infinity) g of
        (None, g1) \<Rightarrow> (background cam, g1)
      | (Some (rec, mat), g1) \<Rightarrow>
          let Le = (if includeLe then emitted mat r rec (rec_u rec) (rec_v rec) (rec_p rec)
                    else Vec3 0 0 0)
          in if depth \<le> 0 then (Le, g1)
             else (case scatter mat r rec g1 of
               (None, g2) \<Rightarrow> (Le, g2)
             | (Some srec, g2) \<Rightarrow>
                 if skip_pdf srec then
                   (let (c, g3) =
                          ray_color_3 cam (skip_pdf_ray srec) (depth - 1) world lights True g2
                    in (vec_mul (attenuation srec) c, g3))
                 else
                   let light_ptr = hittable_pdf lights (rec_p rec);
                       (light_dir, g3) = pdf_generate light_ptr g2;
                       light_ray = \<lparr> origin = rec_p rec, direction = light_dir, time = time r \<rparr>;
                       brdf = vec_scale (scattering_pdf mat r rec light_ray) (attenuation srec);
                       pdf_light = pdf_value light_ptr (direction light_ray);
                       (c_light, g4) = ray_color_3 cam light_ray 0 world lights True g3;
                       Ldir = vec_div (vec_mul brdf c_light) pdf_light;
                       (bsdf_dir, g5) = pdf_generate (pdf_ptr srec) g4;
                       bsdf_ray = \<lparr> origin = rec_p rec, direction = bsdf_dir, time = time r \<rparr>;
                       bsdf = vec_scale (scattering_pdf mat r rec bsdf_ray) (attenuation srec);
                       pdf_bsdf = pdf_value (pdf_ptr srec) (direction bsdf_ray);
                       (c_bsdf, g6) =
                          ray_color_3 cam bsdf_ray (depth - 1) world lights False g5;
                       Lind = vec_div (vec_mul bsdf c_bsdf) pdf_bsdf
                   in (vec_add (vec_add Le Ldir) Lind, g6)))"
  by pat_completeness auto
termination
  by (relation "measure (\<lambda>(cam, r, depth, world, lights, includeLe, g). nat depth)") auto

text \<open>
  path tracing with MIS. The specular branch passes \<^verbatim>\<open>true\<close> for the \<^verbatim>\<open>double\<close>
  parameter \<^verbatim>\<open>Leweight\<close>, which C++ converts to \<open>1.0\<close>.
\<close>

function ray_color_4 ::
  "camera \<Rightarrow> ray \<Rightarrow> int \<Rightarrow> hittable \<Rightarrow> hittable \<Rightarrow> real \<Rightarrow> rng \<Rightarrow> color \<times> rng" where
  "ray_color_4 cam r depth world lights Leweight g =
     (case hit world r (interval (Finite 0.001) infinity) g of
        (None, g1) \<Rightarrow> (background cam, g1)
      | (Some (rec, mat), g1) \<Rightarrow>
          let Le = vec_scale Leweight (emitted mat r rec (rec_u rec) (rec_v rec) (rec_p rec))
          in if depth \<le> 0 then (Le, g1)
             else (case scatter mat r rec g1 of
               (None, g2) \<Rightarrow> (Le, g2)
             | (Some srec, g2) \<Rightarrow>
                 if skip_pdf srec then
                   (let (c, g3) =
                          ray_color_4 cam (skip_pdf_ray srec) (depth - 1) world lights 1 g2
                    in (vec_mul (attenuation srec) c, g3))
                 else
                   let light_ptr = hittable_pdf lights (rec_p rec);
                       (light_dir, g3) = pdf_generate light_ptr g2;
                       light_ray = \<lparr> origin = rec_p rec, direction = light_dir, time = time r \<rparr>;
                       brdf = vec_scale (scattering_pdf mat r rec light_ray) (attenuation srec);
                       pdf_light = pdf_value light_ptr (direction light_ray);
                       pdf_light_bsdf = pdf_value (pdf_ptr srec) (direction light_ray);
                       weight_light = pdf_light ^ 2 / (pdf_light ^ 2 + pdf_light_bsdf ^ 2);
                       (c_light, g4) = ray_color_4 cam light_ray 0 world lights weight_light g3;
                       Ldir = vec_div (vec_mul brdf c_light) pdf_light;
                       (dir, g5) = pdf_generate (pdf_ptr srec) g4;
                       bsdf_ray = \<lparr> origin = rec_p rec, direction = dir, time = time r \<rparr>;
                       bsdf = vec_scale (scattering_pdf mat r rec bsdf_ray) (attenuation srec);
                       pdf_bsdf = pdf_value (pdf_ptr srec) (direction bsdf_ray);
                       pdf_bsdf_light = pdf_value light_ptr (direction bsdf_ray);
                       weight_bsdf = pdf_bsdf ^ 2 / (pdf_bsdf ^ 2 + pdf_bsdf_light ^ 2);
                       (c_bsdf, g6) =
                          ray_color_4 cam bsdf_ray (depth - 1) world lights weight_bsdf g5;
                       Lind = vec_div (vec_mul bsdf c_bsdf) pdf_bsdf
                   in (vec_add (vec_add Le Ldir) Lind, g6)))"
  by pat_completeness auto
termination
  by (relation "measure (\<lambda>(cam, r, depth, world, lights, Leweight, g). nat depth)") auto

section \<open>The camera's frame, rays and pixel loop (camera.h)\<close>

text \<open>
  \<^verbatim>\<open>degrees_to_radians\<close> is declared in \<^verbatim>\<open>rtweekend.h\<close>, which is not among the
  sources. The conversion \<^verbatim>\<open>int(x)\<close> of a double truncates toward zero.
\<close>

definition degrees_to_radians :: "real \<Rightarrow> real" where
  "degrees_to_radians degrees = degrees * pi / 180"

definition trunc_int :: "real \<Rightarrow> int" where
  "trunc_int x = (if 0 \<le> x then \<lfloor>x\<rfloor> else \<lceil>x\<rceil>)"

text \<open>
  \<^verbatim>\<open>initialize\<close> sets the private members from the public ones. The camera is meant for
  \<^verbatim>\<open>samples_per_pixel\<close> at least 1: for 0 the code's \<^verbatim>\<open>pixel_samples_scale\<close> is the
  quotient \<^verbatim>\<open>1.0 / 0\<close>, and for a negative count the square root is NaN.
\<close>

definition initialize :: "camera \<Rightarrow> camera" where
  "initialize cam =
     (let height0 = trunc_int (real_of_int (image_width cam) / aspect_ratio cam);
          height = (if height0 < 1 then 1 else height0);
          s = trunc_int (sqrt (real_of_int (samples_per_pixel cam)));
          theta = degrees_to_radians (vfov cam);
          h = tan (theta / 2);
          viewport_height = 2 * h * focus_dist cam;
          viewport_width =
            viewport_height * (real_of_int (image_width cam) / real_of_int height);
          w = unit_vector (vec_sub (lookfrom cam) (lookat cam));
          u = unit_vector (cross (vup cam) w);
          v = cross w u;
          viewport_u = vec_scale viewport_width u;
          viewport_v = vec_scale viewport_height (vec_neg v);
          delta_u = vec_div viewport_u (real_of_int (image_width cam));
          delta_v = vec_div viewport_v (real_of_int height);
          viewport_upper_left =
            vec_sub (vec_sub (vec_sub (lookfrom cam) (vec_scale (focus_dist cam) w))
                             (vec_div viewport_u 2))
                    (vec_div viewport_v 2);
          defocus_radius =
            focus_dist cam * tan (degrees_to_radians (defocus_angle cam / 2))
      in cam\<lparr> image_height := height,
               sqrt_spp := s,
               pixel_samples_scale := 1 / real_of_int (s * s),
               recip_sqrt_spp := 1 / real_of_int s,
               center := lookfrom cam,
               cam_w := w, cam_u := u, cam_v := v,
               pixel_delta_u := delta_u,
               pixel_delta_v := delta_v,
               pixel00_loc :=
                 vec_add viewport_upper_left (vec_scale 0.5 (vec_add delta_u delta_v)),
               defocus_disk_u := vec_scale defocus_radius u,
               defocus_disk_v := vec_scale defocus_radius v \<rparr>)"

definition sample_square_stratified :: "camera \<Rightarrow> int \<Rightarrow> int \<Rightarrow> rng \<Rightarrow> vec3 \<times> rng" where
  "sample_square_stratified cam s_i s_j g =
     (let (r1, g1) = random_double g;
          px = ((real_of_int s_i + r1) * recip_sqrt_spp cam) - 0.5;
          (r2, g2) = random_double g1;
          py = ((real_of_int s_j + r2) * recip_sqrt_spp cam) - 0.5
      in (Vec3 px py 0, g2))"

text \<open>
  \<^verbatim>\<open>random_in_unit_disk\<close> is declared in \<^verbatim>\<open>vec3.h\<close>, which is not among the sources:
  the functions that reach it take it as a parameter.
\<close>

definition defocus_disk_sample :: "(rng \<Rightarrow> vec3 \<times> rng) \<Rightarrow> camera \<Rightarrow> rng \<Rightarrow> point3 \<times> rng" where
  "defocus_disk_sample random_in_unit_disk cam g =
     (let (p, g1) = random_in_unit_disk g
      in (vec_add (vec_add (center cam) (vec_scale (vx p) (defocus_disk_u cam)))
                  (vec_scale (vy p) (defocus_disk_v cam)), g1))"

definition get_ray ::
  "(rng \<Rightarrow> vec3 \<times> rng) \<Rightarrow> camera \<Rightarrow> int \<Rightarrow> int \<Rightarrow> int \<Rightarrow> int \<Rightarrow> rng \<Rightarrow> ray \<times> rng" where
  "get_ray random_in_unit_disk cam i j s_i s_j g =
     (let (offset, g1) = sample_square_stratified cam s_i s_j g;
          pixel_sample =
            vec_add (vec_add (pixel00_loc cam)
                             (vec_scale (real_of_int i + vx offset) (pixel_delta_u cam)))
                    (vec_scale (real_of_int j + vy offset) (pixel_delta_v cam));
          (ray_origin, g2) =
            (if defocus_angle cam \<le> 0 then (center cam, g1)
             else defocus_disk_sample random_in_unit_disk cam g1);
          ray_direction = vec_sub pixel_sample ray_origin;
          (ray_time, g3) = random_double g2
      in (\<lparr> origin = ray_origin, direction = ray_direction, time = ray_time \<rparr>, g3))"

text \<open>
  The body of the innermost loop of \<^verbatim>\<open>render\<close>: the ray of sub-cell \<open>(s_i, s_j)\<close> and
  the \<^verbatim>\<open>switch\<close> on the render mode.
\<close>

definition sample_radiance ::
  "(rng \<Rightarrow> vec3 \<times> rng) \<Rightarrow> camera \<Rightarrow> hittable \<Rightarrow> hittable \<Rightarrow> int \<Rightarrow> int \<Rightarrow> int \<Rightarrow> int
     \<Rightarrow> rng \<Rightarrow> color \<times> rng" where
  "sample_radiance random_in_unit_disk cam world lights i j s_i s_j g =
     (let (r, g1) = get_ray random_in_unit_disk cam i j s_i s_j g
      in case render_mode cam of
           BSDF_SAMPLING \<Rightarrow> ray_color_1 cam r (max_depth cam) world lights g1
         | MIXTURE_SAMPLING \<Rightarrow> ray_color_2 cam r (max_depth cam) world lights g1
         | NEE \<Rightarrow> ray_color_3 cam r (max_depth cam) world lights True g1
         | MIS \<Rightarrow> ray_color_4 cam r (max_depth cam) world lights 1 g1)"

text \<open>
  The two sample loops of \<^verbatim>\<open>render\<close> for the pixel \<open>(i, j)\<close>, accumulating \<open>x\<close>, \<open>y\<close>,
  \<open>z\<close>, and the assignment to \<^verbatim>\<open>img[j][i]\<close>.
\<close>

definition render_pixel ::
  "(rng \<Rightarrow> vec3 \<times> rng) \<Rightarrow> camera \<Rightarrow> hittable \<Rightarrow> hittable \<Rightarrow> int \<Rightarrow> int \<Rightarrow> rng
     \<Rightarrow> color \<times> rng" where
  "render_pixel random_in_unit_disk cam world lights i j g =
     (let (x, y, z, g') =
            fold (\<lambda>s_j. fold (\<lambda>s_i (x, y, z, g).
                    let (c, g1) = sample_radiance random_in_unit_disk cam world lights
                                    i j s_i s_j g
                    in (x + vx c, y + vy c, z + vz c, g1))
                  [0 .. sqrt_spp cam - 1])
              [0 .. sqrt_spp cam - 1] (0, 0, 0, g)
      in (vec_scale (pixel_samples_scale cam) (Vec3 x y z), g'))"

text \<open>
  \<^verbatim>\<open>render\<close>, up to the image buffer: rows top to bottom, columns left to right. The
  timing and the printing of the buffer are left out.
\<close>

definition render ::
  "(rng \<Rightarrow> vec3 \<times> rng) \<Rightarrow> camera \<Rightarrow> hittable \<Rightarrow> hittable \<Rightarrow> rng \<Rightarrow> color list list \<times> rng" where
  "render random_in_unit_disk cam0 world lights g =
     (let cam = initialize cam0
      in fold (\<lambda>j (img, g).
                 let (row, g1) =
                       fold (\<lambda>i (row, g).
                               let (c, g1) = render_pixel random_in_unit_disk cam world lights
                                               i j g
                               in (row @ [c], g1))
                         [0 .. image_width cam - 1] ([], g)
                 in (img @ [row], g1))
           [0 .. image_height cam - 1] ([], g))"

section \<open>The spec's words\<close>

text \<open>
  The power heuristic as the spec defines it: the weight of a direction drawn by the
  technique of density \<open>pdf_used\<close>, to which the other technique assigns \<open>pdf_other\<close>.
\<close>

definition power_heuristic :: "real \<Rightarrow> real \<Rightarrow> real" where
  "power_heuristic pdf_used pdf_other = pdf_used ^ 2 / (pdf_used ^ 2 + pdf_other ^ 2)"




section \<open>Scenes for concrete runs\<close>

text \<open>
  The camera as the class's default member initializers leave it. The private members are
  set by \<open>initialize\<close>; before that they hold no meaningful value, and are zero here.
\<close>

definition default_camera :: camera where
  "default_camera =
     \<lparr> aspect_ratio = 1, image_width = 100, samples_per_pixel = 10, max_depth = 10,
       background = Vec3 0 0 0, vfov = 90, lookfrom = Vec3 0 0 0, lookat = Vec3 0 0 (-1),
       vup = Vec3 0 1 0, defocus_angle = 0, focus_dist = 10, render_mode = MIS,
       image_height = 0, pixel_samples_scale = 0, sqrt_spp = 0, recip_sqrt_spp = 0,
       center = Vec3 0 0 0, pixel00_loc = Vec3 0 0 0, pixel_delta_u = Vec3 0 0 0,
       pixel_delta_v = Vec3 0 0 0, cam_u = Vec3 0 0 0, cam_v = Vec3 0 0 0, cam_w = Vec3 0 0 0,
       defocus_disk_u = Vec3 0 0 0, defocus_disk_v = Vec3 0 0 0 \<rparr>"

definition unit_ray :: ray where
  "unit_ray = \<lparr> origin = Vec3 0 0 0, direction = Vec3 0 0 (-1), time = 0 \<rparr>"

definition origin_hit :: hit_record where
  "origin_hit = \<lparr> rec_p = Vec3 0 0 0, rec_normal = Vec3 0 0 1, rec_t = 1, rec_u = 0,
                    rec_v = 0, front_face = True \<rparr>"

text \<open>The density that is \<open>c\<close> everywhere and always generates \<open>d\<close>, drawing nothing.\<close>

definition const_pdf :: "real \<Rightarrow> vec3 \<Rightarrow> pdf" where
  "const_pdf c d = \<lparr> pdf_value = (\<lambda>_. c), pdf_generate = (\<lambda>g. (d, g)) \<rparr>"


text \<open>The frame of the coordinate axes: its lobe axis is \<open>z\<close>.\<close>

definition z_frame :: onb where
  "z_frame = \<lparr> axis_u = Vec3 1 0 0, axis_v = Vec3 0 1 0, axis_w = Vec3 0 0 1 \<rparr>"

text \<open>A scene no ray hits.\<close>

definition empty_scene :: hittable where
  "empty_scene = \<lparr> hit = (\<lambda>r ray_t g. (None, g)),
                    hittable_pdf_value = (\<lambda>orig d. 0),
                    hittable_random = (\<lambda>orig g. (Vec3 1 0 0, g)) \<rparr>"

text \<open>A scene every ray hits, at the same record and material.\<close>

definition wall_scene :: "hit_record \<Rightarrow> material \<Rightarrow> hittable" where
  "wall_scene rec mat = \<lparr> hit = (\<lambda>r ray_t g. (Some (rec, mat), g)),
                            hittable_pdf_value = (\<lambda>orig d. 0),
                            hittable_random = (\<lambda>orig g. (Vec3 1 0 0, g)) \<rparr>"

text \<open>A scene hit by every ray but those of direction zero.\<close>

definition facing_scene :: "hit_record \<Rightarrow> material \<Rightarrow> hittable" where
  "facing_scene rec mat =
     \<lparr> hit = (\<lambda>r ray_t g. if direction r = Vec3 0 0 0 then (None, g) else (Some (rec, mat), g)),
       hittable_pdf_value = (\<lambda>orig d. 0),
       hittable_random = (\<lambda>orig g. (Vec3 1 0 0, g)) \<rparr>"

text \<open>
  A scene with one surface, met by every ray at the parameter \<open>rec_t rec\<close>: a query
  finds it when its interval surrounds that parameter.
\<close>

definition plane_scene :: "hit_record \<Rightarrow> material \<Rightarrow> hittable" where
  "plane_scene rec mat =
     \<lparr> hit = (\<lambda>r ray_t g. if surrounds ray_t (rec_t rec) then (Some (rec, mat), g) else (None, g)),
       hittable_pdf_value = (\<lambda>orig d. 0),
       hittable_random = (\<lambda>orig g. (Vec3 1 0 0, g)) \<rparr>"

text \<open>A light sampled in the one direction \<open>d\<close>, with density \<open>c\<close>.\<close>

definition const_light :: "real \<Rightarrow> vec3 \<Rightarrow> hittable" where
  "const_light c d = \<lparr> hit = (\<lambda>r ray_t g. (None, g)),
                         hittable_pdf_value = (\<lambda>orig direction. c),
                         hittable_random = (\<lambda>orig g. (d, g)) \<rparr>"

text \<open>A material that emits \<open>e\<close> and declines to scatter.\<close>

definition emitter :: "color \<Rightarrow> material" where
  "emitter e = \<lparr> emitted = (\<lambda>r rec u v p. e),
                   scatter = (\<lambda>r rec g. (None, g)),
                   scattering_pdf = (\<lambda>r rec scattered. 0) \<rparr>"

text \<open>
  A material that emits \<open>e\<close> and scatters with attenuation \<open>albedo\<close> and the density
  \<open>p\<close>; its scattering density is \<open>s\<close> everywhere.
\<close>

definition glowing_diffuse :: "color \<Rightarrow> color \<Rightarrow> pdf \<Rightarrow> real \<Rightarrow> material" where
  "glowing_diffuse e albedo p s =
     \<lparr> emitted = (\<lambda>r rec u v p. e),
       scatter = (\<lambda>r rec g. (Some \<lparr> attenuation = albedo, pdf_ptr = p, skip_pdf = False,
                                      skip_pdf_ray = r \<rparr>, g)),
       scattering_pdf = (\<lambda>r rec scattered. s) \<rparr>"

section \<open>Properties\<close>

declare ray_color_1.simps [simp del] ray_color_2.simps [simp del]
  ray_color_3.simps [simp del] ray_color_4.simps [simp del]

text \<open>
  C6: for all component densities \<open>p0\<close>, \<open>p1\<close> and every direction, the mixture's value is
  exactly \<open>0.5 * p0.value(d) + 0.5 * p1.value(d)\<close>; its \<open>generate\<close> takes one draw \<open>xi\<close> of
  the uniform \<open>[0,1)\<close> source and defers to \<open>p0\<close> when \<open>xi < 1/2\<close> and to \<open>p1\<close> otherwise.
  The coin is unbiased: the draws selecting \<open>p0\<close> are those of \<open>[0,1/2)\<close>, and shifting
  such a draw by one half gives a draw of \<open>[1/2,1)\<close>, which selects \<open>p1\<close>; the two halves
  of \<open>[0,1)\<close> have the same length.
\<close>

theorem mixture_pdf_value_generate:
  "pdf_value (mixture_pdf p0 p1) d = 0.5 * pdf_value p0 d + 0.5 * pdf_value p1 d
   \<and> pdf_generate (mixture_pdf p0 p1) (xi ## g) =
       (if xi < 1 / 2 then pdf_generate p0 g else pdf_generate p1 g)
   \<and> (0 \<le> xi \<and> xi < 1 / 2 \<longrightarrow>
        pdf_generate (mixture_pdf p0 p1) (xi ## g) = pdf_generate p0 g
        \<and> xi + 1 / 2 < 1
        \<and> pdf_generate (mixture_pdf p0 p1) ((xi + 1 / 2) ## g) = pdf_generate p1 g)"
  by (simp add: mixture_pdf_def random_double_def)

theorem mixture_pdf_value_generate_witness:
  "pdf_value (mixture_pdf (const_pdf 1 (Vec3 1 0 0)) (const_pdf 3 (Vec3 0 1 0))) (Vec3 0 0 1) = 2
   \<and> pdf_generate (mixture_pdf (const_pdf 1 (Vec3 1 0 0)) (const_pdf 3 (Vec3 0 1 0)))
         ((1 / 4) ## sconst 0) = (Vec3 1 0 0, sconst 0)
   \<and> pdf_generate (mixture_pdf (const_pdf 1 (Vec3 1 0 0)) (const_pdf 3 (Vec3 0 1 0)))
         ((3 / 4) ## sconst 0) = (Vec3 0 1 0, sconst 0)"
  using mixture_pdf_value_generate
          [of "const_pdf 1 (Vec3 1 0 0)" "const_pdf 3 (Vec3 0 1 0)" "Vec3 0 0 1" "1 / 4" "sconst 0"]
  by (simp add: const_pdf_def)

text \<open>
  C3, as amended: on a ray for which \<open>world.hit\<close> finds no intersection, variants 3 and 4
  return exactly the background at any depth, and variants 1 and 2 at any depth above
  zero. At depth zero or below, variants 1 and 2 return black without querying the scene.
\<close>

theorem miss_returns_background:
  "hit world r (interval (Finite 0.001) infinity) g = (None, g1) \<Longrightarrow>
     ray_color_3 cam r depth world lights includeLe g = (background cam, g1)
   \<and> ray_color_4 cam r depth world lights Leweight g = (background cam, g1)
   \<and> (0 < depth \<longrightarrow>
         ray_color_1 cam r depth world lights g = (background cam, g1)
       \<and> ray_color_2 cam r depth world lights g = (background cam, g1))
   \<and> (depth \<le> 0 \<longrightarrow>
         ray_color_1 cam r depth world lights g = (Vec3 0 0 0, g)
       \<and> ray_color_2 cam r depth world lights g = (Vec3 0 0 0, g))"
  by (simp add: ray_color_1.simps [of cam r depth] ray_color_2.simps [of cam r depth]
        ray_color_3.simps [of cam r depth] ray_color_4.simps [of cam r depth])

theorem miss_returns_background_witness:
  "ray_color_3 (default_camera\<lparr>background := Vec3 1 1 1\<rparr>) unit_ray 0
       empty_scene empty_scene True (sconst 0) = (Vec3 1 1 1, sconst 0)
   \<and> ray_color_4 (default_camera\<lparr>background := Vec3 1 1 1\<rparr>) unit_ray 0
       empty_scene empty_scene 1 (sconst 0) = (Vec3 1 1 1, sconst 0)
   \<and> ray_color_1 (default_camera\<lparr>background := Vec3 1 1 1\<rparr>) unit_ray 5
       empty_scene empty_scene (sconst 0) = (Vec3 1 1 1, sconst 0)
   \<and> ray_color_2 (default_camera\<lparr>background := Vec3 1 1 1\<rparr>) unit_ray 5
       empty_scene empty_scene (sconst 0) = (Vec3 1 1 1, sconst 0)"
  using miss_returns_background [of empty_scene unit_ray "sconst 0" "sconst 0"
          "default_camera\<lparr>background := Vec3 1 1 1\<rparr>" 0 empty_scene True 1]
        miss_returns_background [of empty_scene unit_ray "sconst 0" "sconst 0"
          "default_camera\<lparr>background := Vec3 1 1 1\<rparr>" 5 empty_scene True 1]
  by (simp add: empty_scene_def default_camera_def)

text \<open>
  The claim as stated (any depth, all four variants) fails at depth 0 for variants 1 and 2:
  with a white background and a scene no ray hits, they return black.
\<close>

theorem miss_at_depth_0_counterexample:
  "hit empty_scene unit_ray (interval (Finite 0.001) infinity) (sconst 0) = (None, sconst 0)
   \<and> fst (ray_color_1 (default_camera\<lparr>background := Vec3 1 1 1\<rparr>) unit_ray 0
             empty_scene empty_scene (sconst 0))
       \<noteq> background (default_camera\<lparr>background := Vec3 1 1 1\<rparr>)
   \<and> fst (ray_color_2 (default_camera\<lparr>background := Vec3 1 1 1\<rparr>) unit_ray 0
             empty_scene empty_scene (sconst 0))
       \<noteq> background (default_camera\<lparr>background := Vec3 1 1 1\<rparr>)"
  by (simp add: ray_color_1.simps ray_color_2.simps empty_scene_def default_camera_def)



subsection \<open>The MIS weights\<close>

lemma vec_add_scale_zero: "vec_add (vec_scale 0 e) a = a"
  by (simp add: vec_add_def vec_scale_def)

lemma vec_add_assoc: "vec_add (vec_add a b) c = vec_add a (vec_add b c)"
  by (simp add: vec_add_def)

lemma vec_add_zero_right: "vec_add a (vec_scale 0 e) = a"
  by (simp add: vec_add_def vec_scale_def)

lemma ray_color_4_Leweight:
  assumes "hit world r (interval (Finite 0.001) infinity) g = (Some (rec, mat), g1)"
    and "depth \<le> 0 \<or> (\<forall>srec g2. scatter mat r rec g1 = (Some srec, g2) \<longrightarrow> \<not> skip_pdf srec)"
  shows "ray_color_4 cam r depth world lights w g =
          (vec_add (vec_scale w (emitted mat r rec (rec_u rec) (rec_v rec) (rec_p rec)))
                   (fst (ray_color_4 cam r depth world lights 0 g)),
           snd (ray_color_4 cam r depth world lights 0 g))"
proof (cases "depth \<le> 0")
  case True
  with assms(1) show ?thesis
    by (simp add: ray_color_4.simps [of cam r depth] vec_add_zero_right)
next
  case False
  obtain osrec g2 where sc: "scatter mat r rec g1 = (osrec, g2)"
    by (cases "scatter mat r rec g1")
  show ?thesis
  proof (cases osrec)
    case None
    with assms(1) False sc show ?thesis
      by (simp add: ray_color_4.simps [of cam r depth] vec_add_zero_right)
  next
    case (Some srec)
    with assms(2) False sc have "\<not> skip_pdf srec" by simp
    with assms(1) False sc Some show ?thesis
      by (simp add: ray_color_4.simps [of cam r depth] Let_def vec_add_scale_zero vec_add_assoc
            split: prod.split)
  qed
qed

text \<open>
  C4: at a vertex of \<open>ray_color_4\<close> where the material scatters with a density, the
  direct ray is traced with \<open>Leweight\<close> the power heuristic of the light density against
  the material's density of the light-sampled direction, and the indirect ray with
  \<open>Leweight\<close> the power heuristic of the material's density against the light density of
  the material-sampled direction. At the vertex a call reaches, \<open>Leweight\<close> scales the
  emission evaluated there and nothing else: the result is \<open>Leweight\<close> times the
  emission plus the result for \<open>Leweight = 0\<close> (at depth 0, or when the material does
  not continue specularly).
\<close>

theorem mis_power_heuristic:
  "hit world r (interval (Finite 0.001) infinity) g = (Some (rec, mat), g1) \<Longrightarrow>
   (0 < depth
    \<and> scatter mat r rec g1 = (Some srec, g2) \<and> \<not> skip_pdf srec
    \<and> hittable_random lights (rec_p rec) g2 = (light_dir, g3)
    \<and> ray_color_4 cam \<lparr> origin = rec_p rec, direction = light_dir, time = time r \<rparr> 0
          world lights
          (power_heuristic (hittable_pdf_value lights (rec_p rec) light_dir)
                           (pdf_value (pdf_ptr srec) light_dir)) g3 = (c_light, g4)
    \<and> pdf_generate (pdf_ptr srec) g4 = (bsdf_dir, g5)
    \<and> ray_color_4 cam \<lparr> origin = rec_p rec, direction = bsdf_dir, time = time r \<rparr> (depth - 1)
          world lights
          (power_heuristic (pdf_value (pdf_ptr srec) bsdf_dir)
                           (hittable_pdf_value lights (rec_p rec) bsdf_dir)) g5 = (c_bsdf, g6)
    \<longrightarrow>
      ray_color_4 cam r depth world lights Leweight g =
        (vec_add
           (vec_add
              (vec_scale Leweight (emitted mat r rec (rec_u rec) (rec_v rec) (rec_p rec)))
              (vec_div
                 (vec_mul
                    (vec_scale
                       (scattering_pdf mat r rec
                          \<lparr> origin = rec_p rec, direction = light_dir, time = time r \<rparr>)
                       (attenuation srec))
                    c_light)
                 (hittable_pdf_value lights (rec_p rec) light_dir)))
           (vec_div
              (vec_mul
                 (vec_scale
                    (scattering_pdf mat r rec
                       \<lparr> origin = rec_p rec, direction = bsdf_dir, time = time r \<rparr>)
                    (attenuation srec))
                 c_bsdf)
              (pdf_value (pdf_ptr srec) bsdf_dir)),
         g6))
   \<and> (depth \<le> 0 \<or> (\<forall>srec g2. scatter mat r rec g1 = (Some srec, g2) \<longrightarrow> \<not> skip_pdf srec)
        \<longrightarrow>
      ray_color_4 cam r depth world lights Leweight g =
        (vec_add (vec_scale Leweight (emitted mat r rec (rec_u rec) (rec_v rec) (rec_p rec)))
                 (fst (ray_color_4 cam r depth world lights 0 g)),
         snd (ray_color_4 cam r depth world lights 0 g)))"
proof (intro conjI impI)
  assume h: "hit world r (interval (Finite 0.001) infinity) g = (Some (rec, mat), g1)"
  {
    assume "0 < depth
      \<and> scatter mat r rec g1 = (Some srec, g2) \<and> \<not> skip_pdf srec
      \<and> hittable_random lights (rec_p rec) g2 = (light_dir, g3)
      \<and> ray_color_4 cam \<lparr> origin = rec_p rec, direction = light_dir, time = time r \<rparr> 0
            world lights
            (power_heuristic (hittable_pdf_value lights (rec_p rec) light_dir)
                             (pdf_value (pdf_ptr srec) light_dir)) g3 = (c_light, g4)
      \<and> pdf_generate (pdf_ptr srec) g4 = (bsdf_dir, g5)
      \<and> ray_color_4 cam \<lparr> origin = rec_p rec, direction = bsdf_dir, time = time r \<rparr> (depth - 1)
            world lights
            (power_heuristic (pdf_value (pdf_ptr srec) bsdf_dir)
                             (hittable_pdf_value lights (rec_p rec) bsdf_dir)) g5 = (c_bsdf, g6)"
    with h show "ray_color_4 cam r depth world lights Leweight g =
        (vec_add
           (vec_add
              (vec_scale Leweight (emitted mat r rec (rec_u rec) (rec_v rec) (rec_p rec)))
              (vec_div
                 (vec_mul
                    (vec_scale
                       (scattering_pdf mat r rec
                          \<lparr> origin = rec_p rec, direction = light_dir, time = time r \<rparr>)
                       (attenuation srec))
                    c_light)
                 (hittable_pdf_value lights (rec_p rec) light_dir)))
           (vec_div
              (vec_mul
                 (vec_scale
                    (scattering_pdf mat r rec
                       \<lparr> origin = rec_p rec, direction = bsdf_dir, time = time r \<rparr>)
                    (attenuation srec))
                 c_bsdf)
              (pdf_value (pdf_ptr srec) bsdf_dir)),
         g6)"
      by (simp add: ray_color_4.simps [of cam r depth] power_heuristic_def hittable_pdf_def)
  }
  {
    assume "depth \<le> 0 \<or> (\<forall>srec g2. scatter mat r rec g1 = (Some srec, g2) \<longrightarrow> \<not> skip_pdf srec)"
    with h show "ray_color_4 cam r depth world lights Leweight g =
        (vec_add (vec_scale Leweight (emitted mat r rec (rec_u rec) (rec_v rec) (rec_p rec)))
                 (fst (ray_color_4 cam r depth world lights 0 g)),
         snd (ray_color_4 cam r depth world lights 0 g))"
      by (rule ray_color_4_Leweight)
  }
qed

theorem mis_power_heuristic_witness:
  "power_heuristic 1 3 = 1 / 10 \<and> power_heuristic 3 1 = 9 / 10
   \<and> ray_color_4 default_camera \<lparr> origin = Vec3 0 0 0, direction = Vec3 0 0 1, time = 0 \<rparr> 0
        (wall_scene origin_hit
           (glowing_diffuse (Vec3 2 2 2) (Vec3 1 1 1) (const_pdf 3 (Vec3 0 1 0)) 1))
        (const_light 1 (Vec3 0 0 1)) (1 / 10) (sconst 0)
      = (Vec3 (1 / 5) (1 / 5) (1 / 5), sconst 0)
   \<and> ray_color_4 default_camera \<lparr> origin = Vec3 0 0 0, direction = Vec3 0 1 0, time = 0 \<rparr> 0
        (wall_scene origin_hit
           (glowing_diffuse (Vec3 2 2 2) (Vec3 1 1 1) (const_pdf 3 (Vec3 0 1 0)) 1))
        (const_light 1 (Vec3 0 0 1)) (9 / 10) (sconst 0)
      = (Vec3 (9 / 5) (9 / 5) (9 / 5), sconst 0)
   \<and> ray_color_4 default_camera unit_ray 1
        (wall_scene origin_hit
           (glowing_diffuse (Vec3 2 2 2) (Vec3 1 1 1) (const_pdf 3 (Vec3 0 1 0)) 1))
        (const_light 1 (Vec3 0 0 1)) 1 (sconst 0)
      = (Vec3 (14 / 5) (14 / 5) (14 / 5), sconst 0)
   \<and> ray_color_4 default_camera unit_ray 1
        (wall_scene origin_hit
           (glowing_diffuse (Vec3 2 2 2) (Vec3 1 1 1) (const_pdf 3 (Vec3 0 1 0)) 1))
        (const_light 1 (Vec3 0 0 1)) 0 (sconst 0)
      = (Vec3 (4 / 5) (4 / 5) (4 / 5), sconst 0)"
proof -
  let ?mat = "glowing_diffuse (Vec3 2 2 2) (Vec3 1 1 1) (const_pdf 3 (Vec3 0 1 0)) 1"
  let ?world = "wall_scene origin_hit ?mat"
  let ?lights = "const_light 1 (Vec3 0 0 1)"
  let ?srec = "\<lparr> attenuation = Vec3 1 1 1, pdf_ptr = const_pdf 3 (Vec3 0 1 0),
                 skip_pdf = False, skip_pdf_ray = unit_ray \<rparr>"
  note at_vertex = mis_power_heuristic
    [where world = ?world and r = unit_ray and g = "sconst 0" and rec = origin_hit
       and mat = ?mat and ?g1.0 = "sconst 0" and depth = 1 and srec = ?srec
       and ?g2.0 = "sconst 0" and lights = ?lights
       and light_dir = "Vec3 0 0 1" and ?g3.0 = "sconst 0" and cam = default_camera
       and c_light = "Vec3 (1 / 5) (1 / 5) (1 / 5)" and ?g4.0 = "sconst 0"
       and bsdf_dir = "Vec3 0 1 0" and ?g5.0 = "sconst 0"
       and c_bsdf = "Vec3 (9 / 5) (9 / 5) (9 / 5)" and ?g6.0 = "sconst 0"]
  show ?thesis
    using at_vertex [where Leweight = 1] at_vertex [where Leweight = 0]
    by (simp add: wall_scene_def glowing_diffuse_def const_pdf_def const_light_def
          power_heuristic_def ray_color_4.simps [of _ _ 0] origin_hit_def unit_ray_def
          vec_scale_def vec_add_def vec_mul_def vec_div_def)
qed

subsection \<open>The interval of the intersection queries\<close>

lemma ray_color_1_world_ext:
  assumes H: "\<And>r g. hit world r (interval (Finite 0.001) infinity) g
                       = hit world' r (interval (Finite 0.001) infinity) g"
  shows "ray_color_1 cam r depth world lights g = ray_color_1 cam r depth world' lights g"
proof (induction "nat depth" arbitrary: depth r g rule: less_induct)
  case less
  have IH: "\<And>r' g'. 0 < depth \<Longrightarrow>
      ray_color_1 cam r' (depth - 1) world lights g' = ray_color_1 cam r' (depth - 1) world' lights g'"
    by (rule less) simp
  show ?case
    by (simp add: ray_color_1.simps [of cam r depth world] ray_color_1.simps [of cam r depth world']
          H [simplified] IH Let_def cong: if_cong option.case_cong prod.case_cong)
qed

lemma ray_color_2_world_ext:
  assumes H: "\<And>r g. hit world r (interval (Finite 0.001) infinity) g
                       = hit world' r (interval (Finite 0.001) infinity) g"
  shows "ray_color_2 cam r depth world lights g = ray_color_2 cam r depth world' lights g"
proof (induction "nat depth" arbitrary: depth r g rule: less_induct)
  case less
  have IH: "\<And>r' g'. 0 < depth \<Longrightarrow>
      ray_color_2 cam r' (depth - 1) world lights g' = ray_color_2 cam r' (depth - 1) world' lights g'"
    by (rule less) simp
  show ?case
    by (simp add: ray_color_2.simps [of cam r depth world] ray_color_2.simps [of cam r depth world']
          H [simplified] IH Let_def cong: if_cong option.case_cong prod.case_cong)
qed

lemma ray_color_3_world_ext:
  assumes H: "\<And>r g. hit world r (interval (Finite 0.001) infinity) g
                       = hit world' r (interval (Finite 0.001) infinity) g"
  shows "ray_color_3 cam r depth world lights incl g = ray_color_3 cam r depth world' lights incl g"
proof (induction "nat depth" arbitrary: depth r g incl rule: less_induct)
  case less
  have IH: "\<And>r' g' i. 0 < depth \<Longrightarrow>
      ray_color_3 cam r' (depth - 1) world lights i g' = ray_color_3 cam r' (depth - 1) world' lights i g'"
    by (rule less) simp
  have IH0: "\<And>r' g' i. 0 < depth \<Longrightarrow>
      ray_color_3 cam r' 0 world lights i g' = ray_color_3 cam r' 0 world' lights i g'"
    by (rule less) simp
  show ?case
    by (simp add: ray_color_3.simps [of cam r depth world] ray_color_3.simps [of cam r depth world']
          H [simplified] IH IH0 Let_def cong: if_cong option.case_cong prod.case_cong)
qed

lemma ray_color_4_world_ext:
  assumes H: "\<And>r g. hit world r (interval (Finite 0.001) infinity) g
                       = hit world' r (interval (Finite 0.001) infinity) g"
  shows "ray_color_4 cam r depth world lights w g = ray_color_4 cam r depth world' lights w g"
proof (induction "nat depth" arbitrary: depth r g w rule: less_induct)
  case less
  have IH: "\<And>r' g' i. 0 < depth \<Longrightarrow>
      ray_color_4 cam r' (depth - 1) world lights i g' = ray_color_4 cam r' (depth - 1) world' lights i g'"
    by (rule less) simp
  have IH0: "\<And>r' g' i. 0 < depth \<Longrightarrow>
      ray_color_4 cam r' 0 world lights i g' = ray_color_4 cam r' 0 world' lights i g'"
    by (rule less) simp
  show ?case
    by (simp add: ray_color_4.simps [of cam r depth world] ray_color_4.simps [of cam r depth world']
          H [simplified] IH IH0 Let_def cong: if_cong option.case_cong prod.case_cong)
qed

text \<open>
  C9: every intersection query of the four integrators, in every recursive call, uses the
  interval \<open>[0.001, infinity)\<close>: two scenes that answer alike on that interval give the
  same radiance and leave the random source alike, whatever they answer on any other
  interval. So a surface met at \<open>t < 0.001\<close> is ignored.
\<close>

theorem hit_queries_use_min_t:
  "(\<forall>r g. hit world r (interval (Finite 0.001) infinity) g
            = hit world' r (interval (Finite 0.001) infinity) g) \<Longrightarrow>
     ray_color_1 cam r depth world lights g = ray_color_1 cam r depth world' lights g
   \<and> ray_color_2 cam r depth world lights g = ray_color_2 cam r depth world' lights g
   \<and> ray_color_3 cam r depth world lights includeLe g
       = ray_color_3 cam r depth world' lights includeLe g
   \<and> ray_color_4 cam r depth world lights Leweight g
       = ray_color_4 cam r depth world' lights Leweight g
   \<and> imin (interval (Finite 0.001) infinity) = Finite (1 / 1000)
   \<and> imax (interval (Finite 0.001) infinity) = PosInf"
  using ray_color_1_world_ext [of world world'] ray_color_2_world_ext [of world world']
        ray_color_3_world_ext [of world world'] ray_color_4_world_ext [of world world']
  by (simp add: interval_def infinity_def)

theorem hit_queries_use_min_t_witness:
  "hit (plane_scene (origin_hit\<lparr>rec_t := 0.0005\<rparr>) (emitter (Vec3 9 9 9))) unit_ray
       (interval (Finite 0) infinity) (sconst 0)
     = (Some (origin_hit\<lparr>rec_t := 0.0005\<rparr>, emitter (Vec3 9 9 9)), sconst 0)
   \<and> ray_color_1 (default_camera\<lparr>background := Vec3 1 1 1\<rparr>) unit_ray 3
        (plane_scene (origin_hit\<lparr>rec_t := 0.0005\<rparr>) (emitter (Vec3 9 9 9)))
        empty_scene (sconst 0) = (Vec3 1 1 1, sconst 0)
   \<and> ray_color_2 (default_camera\<lparr>background := Vec3 1 1 1\<rparr>) unit_ray 3
        (plane_scene (origin_hit\<lparr>rec_t := 0.0005\<rparr>) (emitter (Vec3 9 9 9)))
        empty_scene (sconst 0) = (Vec3 1 1 1, sconst 0)
   \<and> ray_color_3 (default_camera\<lparr>background := Vec3 1 1 1\<rparr>) unit_ray 3
        (plane_scene (origin_hit\<lparr>rec_t := 0.0005\<rparr>) (emitter (Vec3 9 9 9)))
        empty_scene True (sconst 0) = (Vec3 1 1 1, sconst 0)
   \<and> ray_color_4 (default_camera\<lparr>background := Vec3 1 1 1\<rparr>) unit_ray 3
        (plane_scene (origin_hit\<lparr>rec_t := 0.0005\<rparr>) (emitter (Vec3 9 9 9)))
        empty_scene 1 (sconst 0) = (Vec3 1 1 1, sconst 0)"
proof -
  have agree: "\<forall>r g. hit (plane_scene (origin_hit\<lparr>rec_t := 0.0005\<rparr>) (emitter (Vec3 9 9 9))) r
                        (interval (Finite 0.001) infinity) g
                    = hit empty_scene r (interval (Finite 0.001) infinity) g"
    by (simp add: plane_scene_def empty_scene_def surrounds_def interval_def infinity_def
          origin_hit_def)
  have e: "ray_color_1 (default_camera\<lparr>background := Vec3 1 1 1\<rparr>) unit_ray 3
             empty_scene empty_scene (sconst 0) = (Vec3 1 1 1, sconst 0)"
          "ray_color_2 (default_camera\<lparr>background := Vec3 1 1 1\<rparr>) unit_ray 3
             empty_scene empty_scene (sconst 0) = (Vec3 1 1 1, sconst 0)"
          "ray_color_3 (default_camera\<lparr>background := Vec3 1 1 1\<rparr>) unit_ray 3
             empty_scene empty_scene True (sconst 0) = (Vec3 1 1 1, sconst 0)"
          "ray_color_4 (default_camera\<lparr>background := Vec3 1 1 1\<rparr>) unit_ray 3
             empty_scene empty_scene 1 (sconst 0) = (Vec3 1 1 1, sconst 0)"
    by (simp_all add: ray_color_1.simps ray_color_2.simps ray_color_3.simps ray_color_4.simps
          empty_scene_def default_camera_def)
  have h: "hit (plane_scene (origin_hit\<lparr>rec_t := 0.0005\<rparr>) (emitter (Vec3 9 9 9))) unit_ray
             (interval (Finite 0) infinity) (sconst 0)
           = (Some (origin_hit\<lparr>rec_t := 0.0005\<rparr>, emitter (Vec3 9 9 9)), sconst 0)"
    by (simp add: plane_scene_def surrounds_def interval_def infinity_def origin_hit_def)
  show ?thesis
    using hit_queries_use_min_t [OF agree,
            of "default_camera\<lparr>background := Vec3 1 1 1\<rparr>" unit_ray 3 empty_scene "sconst 0" True 1]
          e h
    by simp
qed

subsection \<open>Degenerate scatter directions\<close>

text \<open>
  \<open>ray_color_1\<close> guards the direction its material density generates: below the
  threshold \<open>0.0001\<close> of squared length it returns the emission, with no recursive call.
\<close>

lemma ray_color_1_degenerate_direction:
  "0 < depth \<Longrightarrow>
   hit world r (interval (Finite 0.001) infinity) g = (Some (rec, mat), g1) \<Longrightarrow>
   scatter mat r rec g1 = (Some srec, g2) \<Longrightarrow> \<not> skip_pdf srec \<Longrightarrow>
   pdf_generate (pdf_ptr srec) g2 = (dir, g3) \<Longrightarrow> length_squared dir < 0.0001 \<Longrightarrow>
   ray_color_1 cam r depth world lights g
     = (emitted mat r rec (rec_u rec) (rec_v rec) (rec_p rec), g3)"
  by (simp add: ray_color_1.simps [of cam r depth])

text \<open>
  C1: every variant should end the path with the emission of the hit, without recursion,
  when the material scatters with a density and the generated direction has squared length
  below the threshold. Only \<open>ray_color_1\<close> does. On a surface whose density generates
  the zero direction, under a white background and at depth 2, \<open>ray_color_1\<close> returns the
  emission \<open>(1/2,1/2,1/2)\<close>, while \<open>ray_color_2\<close>, \<open>ray_color_3\<close> and \<open>ray_color_4\<close>
  trace the degenerate ray and add what it returns to the emission.
\<close>

theorem degenerate_direction_unguarded:
  "length_squared (Vec3 0 0 0) < 0.0001
   \<and> pdf_generate (const_pdf 1 (Vec3 0 0 0)) (sconst (1 / 2)) = (Vec3 0 0 0, sconst (1 / 2))
   \<and> ray_color_1 (default_camera\<lparr>background := Vec3 1 1 1\<rparr>) unit_ray 2
        (facing_scene origin_hit
           (glowing_diffuse (Vec3 (1 / 2) (1 / 2) (1 / 2)) (Vec3 1 1 1)
              (const_pdf 1 (Vec3 0 0 0)) 1))
        (const_light 1 (Vec3 0 0 1)) (sconst (1 / 2))
      = (Vec3 (1 / 2) (1 / 2) (1 / 2), sconst (1 / 2))
   \<and> ray_color_2 (default_camera\<lparr>background := Vec3 1 1 1\<rparr>) unit_ray 2
        (facing_scene origin_hit
           (glowing_diffuse (Vec3 (1 / 2) (1 / 2) (1 / 2)) (Vec3 1 1 1)
              (const_pdf 1 (Vec3 0 0 0)) 1))
        (const_light 1 (Vec3 0 0 1)) (sconst (1 / 2))
      = (Vec3 (3 / 2) (3 / 2) (3 / 2), sconst (1 / 2))
   \<and> ray_color_3 (default_camera\<lparr>background := Vec3 1 1 1\<rparr>) unit_ray 2
        (facing_scene origin_hit
           (glowing_diffuse (Vec3 (1 / 2) (1 / 2) (1 / 2)) (Vec3 1 1 1)
              (const_pdf 1 (Vec3 0 0 0)) 1))
        (const_light 1 (Vec3 0 0 1)) True (sconst (1 / 2))
      = (Vec3 2 2 2, sconst (1 / 2))
   \<and> ray_color_4 (default_camera\<lparr>background := Vec3 1 1 1\<rparr>) unit_ray 2
        (facing_scene origin_hit
           (glowing_diffuse (Vec3 (1 / 2) (1 / 2) (1 / 2)) (Vec3 1 1 1)
              (const_pdf 1 (Vec3 0 0 0)) 1))
        (const_light 1 (Vec3 0 0 1)) 1 (sconst (1 / 2))
      = (Vec3 (7 / 4) (7 / 4) (7 / 4), sconst (1 / 2))"
  by (simp add: ray_color_1.simps ray_color_2.simps ray_color_3.simps ray_color_4.simps
        facing_scene_def glowing_diffuse_def const_pdf_def const_light_def default_camera_def
        unit_ray_def origin_hit_def mixture_pdf_def hittable_pdf_def random_double_def
        length_squared_def vec_add_def vec_scale_def vec_mul_def vec_div_def)

subsection \<open>Sampling a collection of lights\<close>

lemma fold_weighted_sum:
  "fold (\<lambda>object sum. double_add sum (double_mul (Finite w) (Finite (f object)))) xs (Finite a)
     = Finite (a + w * sum_list (map f xs))"
  by (induction xs arbitrary: a) (simp_all add: algebra_simps)

lemma random_int_index:
  assumes "0 \<le> shd g" "shd g < 1" "0 < n"
  shows "random_int 0 (int n - 1) g = (int (nat \<lfloor>real n * shd g\<rfloor>), stl g)"
    and "nat \<lfloor>real n * shd g\<rfloor> < n"
    and "real (nat \<lfloor>real n * shd g\<rfloor>) / real n \<le> shd g"
    and "shd g < real (nat \<lfloor>real n * shd g\<rfloor> + 1) / real n"
    and "0 \<le> \<lfloor>real n * shd g\<rfloor>"
    and "\<lfloor>real n * shd g\<rfloor> < int n"
proof -
  let ?x = "real n * shd g"
  have nn: "0 \<le> ?x" using assms by simp
  have lt: "?x < real n" using assms by simp
  show f0: "0 \<le> \<lfloor>?x\<rfloor>" using nn by simp
  show fl: "\<lfloor>?x\<rfloor> < int n" using lt by (simp add: floor_less_iff)
  show "random_int 0 (int n - 1) g = (int (nat \<lfloor>?x\<rfloor>), stl g)"
    using f0 by (simp add: random_int_def random_double_def)
  show k: "nat \<lfloor>?x\<rfloor> < n" using f0 fl by linarith
  have "real (nat \<lfloor>?x\<rfloor>) = of_int \<lfloor>?x\<rfloor>" using f0 by simp
  then have le: "real (nat \<lfloor>?x\<rfloor>) \<le> ?x" and gt: "?x < real (nat \<lfloor>?x\<rfloor>) + 1"
    by linarith+
  show "real (nat \<lfloor>?x\<rfloor>) / real n \<le> shd g"
    using le assms(3) by (simp add: divide_le_eq mult.commute)
  show "shd g < real (nat \<lfloor>?x\<rfloor> + 1) / real n"
    using gt assms(3) by (simp add: less_divide_eq mult.commute)
qed

text \<open>
  C7: for a collection of \<open>N\<close> members (\<open>N\<close> at least one), \<open>pdf_value\<close> is the
  unweighted average of the members' \<open>pdf_value\<close> at that origin and direction, and
  \<open>random\<close> returns what the member of index \<open>k\<close> samples, where \<open>k\<close> is read off one
  uniform draw \<open>xi\<close> of \<open>[0,1)\<close>: member \<open>k\<close> is selected when \<open>xi\<close> lies in
  \<open>[k/N, (k+1)/N)\<close>, an interval of length \<open>1/N\<close> for every member.
\<close>

theorem hittable_list_uniform_mixture:
  "objects \<noteq> [] \<Longrightarrow> 0 \<le> shd g \<Longrightarrow> shd g < 1 \<Longrightarrow>
     hittable_list_pdf_value objects orig dir
       = Finite (sum_list (map (\<lambda>object. hittable_pdf_value object orig dir) objects)
                 / real (length objects))
   \<and> nat \<lfloor>real (length objects) * shd g\<rfloor> < length objects
   \<and> hittable_list_random objects orig g
       = Inr (hittable_random (objects ! nat \<lfloor>real (length objects) * shd g\<rfloor>) orig (stl g))
   \<and> real (nat \<lfloor>real (length objects) * shd g\<rfloor>) / real (length objects) \<le> shd g
   \<and> shd g < real (nat \<lfloor>real (length objects) * shd g\<rfloor> + 1) / real (length objects)"
proof -
  assume ne: "objects \<noteq> []" and g: "0 \<le> shd g" "shd g < 1"
  then have n: "0 < length objects" by simp
  note ri = random_int_index [OF g n]
  have v: "hittable_list_pdf_value objects orig dir
       = Finite (sum_list (map (\<lambda>object. hittable_pdf_value object orig dir) objects)
                 / real (length objects))"
  proof -
    have w: "pdf_value_weight objects = Finite (1 / real (length objects))"
      using n by (simp add: pdf_value_weight_def double_div_def)
    show ?thesis
      unfolding hittable_list_pdf_value_def Let_def w fold_weighted_sum by simp
  qed
  have r: "hittable_list_random objects orig g
       = Inr (hittable_random (objects ! nat \<lfloor>real (length objects) * shd g\<rfloor>) orig (stl g))"
    using ri(5,6) by (simp add: hittable_list_random_def ri(1))
  show ?thesis using v r ri(2,3,4) by simp
qed

theorem hittable_list_uniform_mixture_witness:
  "hittable_list_pdf_value [const_light 1 (Vec3 1 0 0), const_light 3 (Vec3 0 1 0)]
       (Vec3 0 0 0) (Vec3 0 0 1) = Finite 2
   \<and> hittable_list_random [const_light 1 (Vec3 1 0 0), const_light 3 (Vec3 0 1 0)]
       (Vec3 0 0 0) ((3 / 4) ## sconst 0) = Inr (Vec3 0 1 0, sconst 0)
   \<and> hittable_list_random [const_light 1 (Vec3 1 0 0), const_light 3 (Vec3 0 1 0)]
       (Vec3 0 0 0) ((1 / 4) ## sconst 0) = Inr (Vec3 1 0 0, sconst 0)"
  using hittable_list_uniform_mixture
          [of "[const_light 1 (Vec3 1 0 0), const_light 3 (Vec3 0 1 0)]" "(3 / 4) ## sconst 0"
              "Vec3 0 0 0" "Vec3 0 0 1"]
        hittable_list_uniform_mixture
          [of "[const_light 1 (Vec3 1 0 0), const_light 3 (Vec3 0 1 0)]" "(1 / 4) ## sconst 0"
              "Vec3 0 0 0" "Vec3 0 0 1"]
  by (simp add: const_light_def)



subsection \<open>The rejection loop of the Phong lobe\<close>

lemma phong_generate_result:
  assumes "phong_generate p g = Some y"
  shows "0 < dot (fst y) (phong_n p)"
proof (rule phong_generate.raw_induct
         [where P = "\<lambda>p g y. 0 < dot (fst y) (phong_n p)", OF _ assms], goal_cases)
  case (1 loop p g y)
  then show ?case
    by (auto simp: Let_def split: prod.splits if_splits)
qed

text \<open>
  C8: whenever \<open>phong_pdf::generate\<close> returns, the direction it returns has a strictly
  positive dot product with the reference normal \<open>n\<close> given at construction.
\<close>

theorem phong_generate_positive_side:
  "phong_generate p g = Some (d, g') \<Longrightarrow> 0 < dot d (phong_n p)"
  using phong_generate_result [of p g "(d, g')"] by simp

text \<open>
  A run with one rejection: lobe axis \<open>z\<close>, reference normal \<open>x\<close>. The first candidate
  has azimuth \<open>pi\<close> and lies on the wrong side of the normal; the second, of azimuth
  \<open>0\<close>, is returned.
\<close>

lemma c_bounds:
  "0 < (1 / 10 ^ 10 :: real) powr (1 / 31)" "(1 / 10 ^ 10 :: real) powr (1 / 31) < 1"
  by (simp_all add: powr01_less_one)

theorem phong_generate_positive_side_witness:
  "phong_generate (new_phong_pdf z_frame 30 (Vec3 1 0 0)) ((1 / 2) ## 0 ## sconst 0)
     = Some (Vec3 (sqrt (1 - (1 / 10 ^ 10) powr (1 / 31) * (1 / 10 ^ 10) powr (1 / 31))) 0
                  ((1 / 10 ^ 10) powr (1 / 31)), sconst 0)
   \<and> 0 < dot (Vec3 (sqrt (1 - (1 / 10 ^ 10) powr (1 / 31) * (1 / 10 ^ 10) powr (1 / 31))) 0
                     ((1 / 10 ^ 10) powr (1 / 31))) (Vec3 1 0 0)"
proof -
  let ?c = "(1 / 10 ^ 10 :: real) powr (1 / 31)"
  have "?c * ?c < 1 * 1" using c_bounds by (intro mult_strict_mono) simp_all
  then have cc: "?c * ?c < 1" by simp
  have second: "phong_generate (new_phong_pdf z_frame 30 (Vec3 1 0 0)) (sconst 0)
                  = Some (Vec3 (sqrt (1 - ?c * ?c)) 0 ?c, sconst 0)"
    using cc
    by (subst phong_generate.simps)
       (simp add: random_double_def new_phong_pdf_def clamp_def z_frame_def onb_transform_def
          dot_def vec_add_def vec_scale_def Let_def)
  have first: "phong_generate (new_phong_pdf z_frame 30 (Vec3 1 0 0)) ((1 / 2) ## 0 ## sconst 0)
                 = phong_generate (new_phong_pdf z_frame 30 (Vec3 1 0 0)) (sconst 0)"
    using cc
    by (subst phong_generate.simps)
       (simp add: random_double_def new_phong_pdf_def clamp_def z_frame_def onb_transform_def
          dot_def vec_add_def vec_scale_def Let_def)
  have r: "phong_generate (new_phong_pdf z_frame 30 (Vec3 1 0 0)) ((1 / 2) ## 0 ## sconst 0)
             = Some (Vec3 (sqrt (1 - ?c * ?c)) 0 ?c, sconst 0)"
    using first second by simp
  from phong_generate_positive_side [OF r] r show ?thesis
    by (simp add: new_phong_pdf_def)
qed

subsection \<open>The samples of a pixel\<close>








lemma stratified_offset_in_cell:
  assumes "0 \<le> shd g" "shd g < 1" "0 \<le> shd (stl g)" "shd (stl g) < 1" "0 < recip_sqrt_spp cam"
  shows "fst (sample_square_stratified cam s_i s_j g)
           = Vec3 ((real_of_int s_i + shd g) * recip_sqrt_spp cam - 0.5)
                  ((real_of_int s_j + shd (stl g)) * recip_sqrt_spp cam - 0.5) 0"
    and "real_of_int s_i * recip_sqrt_spp cam - 0.5
           \<le> vx (fst (sample_square_stratified cam s_i s_j g))"
    and "vx (fst (sample_square_stratified cam s_i s_j g))
           < real_of_int (s_i + 1) * recip_sqrt_spp cam - 0.5"
    and "real_of_int s_j * recip_sqrt_spp cam - 0.5
           \<le> vy (fst (sample_square_stratified cam s_i s_j g))"
    and "vy (fst (sample_square_stratified cam s_i s_j g))
           < real_of_int (s_j + 1) * recip_sqrt_spp cam - 0.5"
  using assms
  by (simp_all add: sample_square_stratified_def random_double_def algebra_simps)






end
